theory Spec2Isabelle
  imports Complex_Main "HOL-Library.Sublist" "HOL-Library.Char_ord" "HOL-Library.List_Lexorder"
begin

section \<open>Core models (backend/core/models.py)\<close>

text \<open>
  The enumerations of the source become datatypes. \<open>ProbeOutcome\<close> and
  \<open>HypothesisStatus\<close> both have members named CONFIRMED and FALSIFIED; the outcome
  constructors carry the prefix \<open>Outcome_\<close>. Python floats are modelled as \<open>real\<close>:
  the confidence rules are read as exact arithmetic.
\<close>

datatype HypothesisType =
  ENDPOINT_SCHEMA | BUSINESS_RULE | STATE_TRANSITION | PERMISSION_GATE | RATE_LIMIT | FIELD_CONSTRAINT

datatype HypothesisStatus = ACTIVE | CHALLENGED | CONFIRMED | FALSIFIED | NEEDS_REVISION

datatype ProbeOutcome = Outcome_CONFIRMED | Outcome_FALSIFIED | Outcome_INCONCLUSIVE

datatype CriticVerdict = ACCEPT | CHALLENGE | REJECT

datatype ConfidenceEventType =
  INITIAL_INFERENCE | EVIDENCE_ADDED | CRITIC_CHALLENGE | PROBE_CONFIRMED | PROBE_FALSIFIED
  | PROBE_INCONCLUSIVE | MANUAL_OVERRIDE

record EvidenceRef =
  observation_id :: string
  summary :: string
  strength :: string

record CompetingExplanation =
  ce_description :: string
  plausibility :: real
  distinguishing_test :: string

record ConfidenceEvent =
  event_type :: ConfidenceEventType
  old_confidence :: real
  new_confidence :: real
  reason :: string
  agent :: string

text \<open>
  The hypothesis model. The timestamps and the free-form dictionaries of the source
  (\<open>formal_definition\<close>, the schemas, \<open>trigger_conditions\<close>, \<open>observed_response\<close>) play
  no part in the store's confidence calculus and are left out.
\<close>

record Hypothesis =
  hyp_id :: string
  hyp_type :: HypothesisType
  description :: string
  endpoint_pattern :: "string option"
  http_method :: "string option"
  supporting_evidence :: "EvidenceRef list"
  contradicting_evidence :: "EvidenceRef list"
  competing_explanations :: "CompetingExplanation list"
  untested_assumptions :: "string list"
  confidence :: real
  confidence_history :: "ConfidenceEvent list"
  status :: HypothesisStatus
  revision :: int
  created_by :: string
  last_modified_by :: string

record CriticEvaluation =
  ev_hypothesis_id :: string
  verdict :: CriticVerdict
  alternative_explanations :: "string list"
  ev_untested_assumptions :: "string list"
  original_confidence :: real
  recommended_confidence :: real
  adjustment_reason :: string

record ProbeResult =
  pr_id :: string
  probe_id :: string
  pr_hypothesis_id :: string
  outcome :: ProbeOutcome
  pr_notes :: string

fun outcome_value :: "ProbeOutcome \<Rightarrow> string" where
  "outcome_value Outcome_CONFIRMED = ''confirmed''"
| "outcome_value Outcome_FALSIFIED = ''falsified''"
| "outcome_value Outcome_INCONCLUSIVE = ''inconclusive''"

section \<open>Formatting integers (Python's str on int)\<close>

definition digit_char :: "nat \<Rightarrow> char" where
  "digit_char d = char_of (48 + d)"

fun str_of_nat :: "nat \<Rightarrow> string" where
  "str_of_nat n = (if n < 10 then [digit_char n] else str_of_nat (n div 10) @ [digit_char (n mod 10)])"

declare str_of_nat.simps [simp del]

definition str_of_int :: "int \<Rightarrow> string" where
  "str_of_int i = (if i < 0 then CHR ''-'' # str_of_nat (nat (- i)) else str_of_nat (nat i))"

section \<open>Confidence calculus (backend/memory/hypothesis_store.py)\<close>

definition MIN_CONFIDENCE_FOR_EXPORT :: real where
  "MIN_CONFIDENCE_FOR_EXPORT = 0.7"

definition MIN_CONFIDENCE_TO_STOP :: real where
  "MIN_CONFIDENCE_TO_STOP = 0.85"

definition REVISION_THRESHOLD :: real where
  "REVISION_THRESHOLD = 0.2"

definition initial_confidence :: "int \<Rightarrow> int \<Rightarrow> int \<Rightarrow> real" where
  "initial_confidence evidence_count competing_count untested_count =
     (let base = (if evidence_count = 1 then 0.2
                  else if evidence_count = 2 then 0.35
                  else if evidence_count \<le> 5 then 0.5
                  else 0.6);
          competing_penalty = real_of_int competing_count * 0.1;
          assumption_penalty = real_of_int untested_count * 0.05
      in max 0.1 (min 1.0 (base - competing_penalty - assumption_penalty)))"

fun apply_critic_review :: "real \<Rightarrow> CriticEvaluation \<Rightarrow> real" where
  "apply_critic_review current review =
     (case verdict review of
        REJECT \<Rightarrow> current * 0.3
      | CHALLENGE \<Rightarrow> min current (recommended_confidence review)
      | ACCEPT \<Rightarrow> min 1.0 (current * 1.1))"

fun apply_probe_result :: "real \<Rightarrow> ProbeOutcome \<Rightarrow> real" where
  "apply_probe_result current Outcome_CONFIRMED = current + (1.0 - current) * 0.2"
| "apply_probe_result current Outcome_FALSIFIED = current * 0.5"
| "apply_probe_result current Outcome_INCONCLUSIVE = current * 0.95"

section \<open>The hypothesis store\<close>

text \<open>
  The store is the dictionary \<open>self.hypotheses\<close>, from hypothesis id to hypothesis.
  Persistence to the database mirrors the dictionary and swallows its own errors; it is
  not modelled. The identifier drawn by \<open>uuid4()\<close> is a parameter of \<open>create\<close>.
\<close>

type_synonym HypothesisStore = "string \<rightharpoonup> Hypothesis"

datatype store_error = ValidationError

text \<open>An element of the keyword argument \<open>supporting_evidence\<close>: a string, an evidence
  reference, or a value of any other type (which the conversion loop skips).\<close>

datatype evidence_arg = EvStr string | EvRef EvidenceRef | EvOther

record create_kwargs =
  kw_status :: "HypothesisStatus option"
  kw_confidence :: "real option"
  kw_supporting_evidence :: "evidence_arg list"
  kw_competing_explanations :: "CompetingExplanation list"
  kw_untested_assumptions :: "string list"
  kw_endpoint_pattern :: "string option"
  kw_method :: "string option"

fun convert_evidence :: "evidence_arg list \<Rightarrow> EvidenceRef list" where
  "convert_evidence [] = []"
| "convert_evidence (EvStr e # es) =
     \<lparr>observation_id = '''', summary = e, strength = ''moderate''\<rparr> # convert_evidence es"
| "convert_evidence (EvRef e # es) = e # convert_evidence es"
| "convert_evidence (EvOther # es) = convert_evidence es"

text \<open>
  \<open>create\<close>. The keyword fields \<open>competing_explanations\<close> and \<open>untested_assumptions\<close>
  only feed the counts of the initial-confidence rule: the source removes them from the
  keywords before it builds the hypothesis, whose two lists therefore start empty. The
  model class bounds \<open>confidence\<close> to \<open>[0, 1]\<close> (\<open>Field(ge=0.0, le=1.0)\<close>), so building
  the hypothesis raises a validation error outside that range.
\<close>

definition create ::
  "string \<Rightarrow> HypothesisType \<Rightarrow> string \<Rightarrow> string \<Rightarrow> EvidenceRef list \<Rightarrow> create_kwargs
     \<Rightarrow> HypothesisStore \<Rightarrow> store_error + (Hypothesis \<times> HypothesisStore)" where
  "create new_id ty descr creator evidence0 kw st =
     (let status0 = (case kw_status kw of None \<Rightarrow> ACTIVE | Some s \<Rightarrow> s);
          confidence_override = kw_confidence kw;
          evidence = evidence0 @ convert_evidence (kw_supporting_evidence kw);
          competing = kw_competing_explanations kw;
          untested = kw_untested_assumptions kw;
          initial_conf =
            (case confidence_override of
               Some c \<Rightarrow> c
             | None \<Rightarrow> initial_confidence (int (length evidence)) (int (length competing))
                         (int (length untested)));
          hypothesis =
            \<lparr>hyp_id = new_id, hyp_type = ty, description = descr,
             endpoint_pattern = kw_endpoint_pattern kw, http_method = kw_method kw,
             supporting_evidence = evidence, contradicting_evidence = [],
             competing_explanations = [], untested_assumptions = [],
             confidence = initial_conf,
             confidence_history =
               [\<lparr>event_type = INITIAL_INFERENCE, old_confidence = 0.0,
                 new_confidence = initial_conf,
                 reason = ''Initial inference with '' @ str_of_nat (length evidence)
                            @ '' observations'',
                 agent = creator\<rparr>],
             status = status0, revision = 1, created_by = creator,
             last_modified_by = creator\<rparr>
      in if 0 \<le> initial_conf \<and> initial_conf \<le> 1
         then Inr (hypothesis, st(new_id \<mapsto> hypothesis))
         else Inl ValidationError)"

fun add_alternatives :: "CompetingExplanation list \<Rightarrow> string list \<Rightarrow> CompetingExplanation list" where
  "add_alternatives ces [] = ces"
| "add_alternatives ces (alt # alts) =
     add_alternatives
       (if \<not> list_ex (\<lambda>ce. ce_description ce = alt) ces
        then ces @ [\<lparr>ce_description = alt, plausibility = 0.5,
                     distinguishing_test = ''Requires further investigation''\<rparr>]
        else ces)
       alts"

definition critic_update :: "CriticEvaluation \<Rightarrow> Hypothesis \<Rightarrow> Hypothesis" where
  "critic_update evaluation hypothesis =
     (let old_conf = confidence hypothesis;
          new_conf = apply_critic_review old_conf evaluation
      in hypothesis
           \<lparr>competing_explanations :=
              add_alternatives (competing_explanations hypothesis)
                (alternative_explanations evaluation),
            untested_assumptions :=
              untested_assumptions hypothesis
                @ filter (\<lambda>a. a \<notin> set (untested_assumptions hypothesis))
                    (ev_untested_assumptions evaluation),
            confidence := new_conf,
            confidence_history :=
              confidence_history hypothesis
                @ [\<lparr>event_type = CRITIC_CHALLENGE, old_confidence = old_conf,
                    new_confidence = new_conf, reason = adjustment_reason evaluation,
                    agent = ''critic''\<rparr>],
            status := (if new_conf < REVISION_THRESHOLD then NEEDS_REVISION
                       else status hypothesis),
            last_modified_by := ''critic'',
            revision := revision hypothesis + 1\<rparr>)"

definition apply_critic_evaluation ::
  "string \<Rightarrow> CriticEvaluation \<Rightarrow> HypothesisStore \<Rightarrow> Hypothesis option \<times> HypothesisStore" where
  "apply_critic_evaluation hypothesis_id evaluation st =
     (case st hypothesis_id of
        None \<Rightarrow> (None, st)
      | Some hypothesis \<Rightarrow>
          (let h' = critic_update evaluation hypothesis
           in (Some h', st(hypothesis_id \<mapsto> h'))))"

fun probe_event_type :: "ProbeOutcome \<Rightarrow> ConfidenceEventType" where
  "probe_event_type Outcome_CONFIRMED = PROBE_CONFIRMED"
| "probe_event_type Outcome_FALSIFIED = PROBE_FALSIFIED"
| "probe_event_type Outcome_INCONCLUSIVE = PROBE_INCONCLUSIVE"

definition probe_update :: "ProbeResult \<Rightarrow> Hypothesis \<Rightarrow> Hypothesis" where
  "probe_update result hypothesis =
     (let old_conf = confidence hypothesis;
          new_conf = apply_probe_result old_conf (outcome result)
      in hypothesis
           \<lparr>confidence := new_conf,
            confidence_history :=
              confidence_history hypothesis
                @ [\<lparr>event_type = probe_event_type (outcome result), old_confidence = old_conf,
                    new_confidence = new_conf,
                    reason = (if pr_notes result \<noteq> [] then pr_notes result
                              else ''Probe '' @ outcome_value (outcome result)),
                    agent = ''verifier''\<rparr>],
            status :=
              (if outcome result = Outcome_FALSIFIED \<and> new_conf < 0.2 then FALSIFIED
               else if outcome result = Outcome_CONFIRMED \<and> new_conf \<ge> 0.85 then CONFIRMED
               else if new_conf < REVISION_THRESHOLD then NEEDS_REVISION
               else status hypothesis),
            contradicting_evidence :=
              (if outcome result = Outcome_FALSIFIED
               then contradicting_evidence hypothesis
                      @ [\<lparr>observation_id = pr_id result,
                          summary = ''Probe falsified: '' @ pr_notes result,
                          strength = ''strong''\<rparr>]
               else contradicting_evidence hypothesis),
            last_modified_by := ''verifier'',
            revision := revision hypothesis + 1\<rparr>)"

definition store_apply_probe_result ::
  "string \<Rightarrow> ProbeResult \<Rightarrow> HypothesisStore \<Rightarrow> Hypothesis option \<times> HypothesisStore" where
  "store_apply_probe_result hypothesis_id result st =
     (case st hypothesis_id of
        None \<Rightarrow> (None, st)
      | Some hypothesis \<Rightarrow>
          (let h' = probe_update result hypothesis
           in (Some h', st(hypothesis_id \<mapsto> h'))))"

text \<open>
  A sequence of \<open>create\<close> calls, as a caller issues them: a call that raises leaves the
  store as it was.
\<close>

record create_call =
  cc_id :: string
  cc_type :: HypothesisType
  cc_description :: string
  cc_created_by :: string
  cc_evidence :: "EvidenceRef list"
  cc_kwargs :: create_kwargs

fun create_seq :: "create_call list \<Rightarrow> HypothesisStore \<Rightarrow> HypothesisStore" where
  "create_seq [] st = st"
| "create_seq (c # cs) st =
     (case create (cc_id c) (cc_type c) (cc_description c) (cc_created_by c) (cc_evidence c)
             (cc_kwargs c) st of
        Inl e \<Rightarrow> create_seq cs st
      | Inr (h, st') \<Rightarrow> create_seq cs st')"

text \<open>The store after one, and after two successive, applications of the same review.\<close>

definition critic_once :: "string \<Rightarrow> CriticEvaluation \<Rightarrow> HypothesisStore \<Rightarrow> HypothesisStore" where
  "critic_once i ev st = snd (apply_critic_evaluation i ev st)"

definition critic_twice :: "string \<Rightarrow> CriticEvaluation \<Rightarrow> HypothesisStore \<Rightarrow> HypothesisStore" where
  "critic_twice i ev st = critic_once i ev (critic_once i ev st)"

subsection \<open>Concrete stores and reviews\<close>

text \<open>The keyword fields with which the exploration loop (api/routes/control.py) calls
  \<open>create\<close> for a discovered endpoint: an explicit confidence of 0.6, the status active,
  the pattern and the method. The loop also passes a \<open>response_schema\<close>, one of the
  dictionaries the hypothesis record here leaves out.\<close>

definition analyst_kwargs :: create_kwargs where
  "analyst_kwargs =
     \<lparr>kw_status = Some ACTIVE, kw_confidence = Some 0.6, kw_supporting_evidence = [],
      kw_competing_explanations = [], kw_untested_assumptions = [],
      kw_endpoint_pattern = Some ''/api/orders'', kw_method = Some ''POST''\<rparr>"

text \<open>The same keyword fields with a confidence above the range of the hypothesis model.\<close>

definition out_of_range_kwargs :: create_kwargs where
  "out_of_range_kwargs =
     \<lparr>kw_status = Some ACTIVE, kw_confidence = Some 1.5, kw_supporting_evidence = [],
      kw_competing_explanations = [], kw_untested_assumptions = [],
      kw_endpoint_pattern = Some ''/api/orders'', kw_method = Some ''POST''\<rparr>"

definition users_kwargs :: create_kwargs where
  "users_kwargs =
     \<lparr>kw_status = None, kw_confidence = None,
      kw_supporting_evidence = [EvStr ''GET /api/users/42 200''],
      kw_competing_explanations = [], kw_untested_assumptions = [],
      kw_endpoint_pattern = Some ''/api/users/{id}'', kw_method = Some ''GET''\<rparr>"

definition users_call :: "string \<Rightarrow> create_call" where
  "users_call i =
     \<lparr>cc_id = i, cc_type = ENDPOINT_SCHEMA,
      cc_description = ''API endpoint discovered: GET /api/users/{id}'',
      cc_created_by = ''analyst'', cc_evidence = [], cc_kwargs = users_kwargs\<rparr>"

definition users_hypothesis :: Hypothesis where
  "users_hypothesis =
     \<lparr>hyp_id = ''id-1'', hyp_type = ENDPOINT_SCHEMA,
      description = ''API endpoint discovered: GET /api/users/{id}'',
      endpoint_pattern = Some ''/api/users/{id}'', http_method = Some ''GET'',
      supporting_evidence =
        [\<lparr>observation_id = [], summary = ''GET /api/users/42 200'', strength = ''moderate''\<rparr>],
      contradicting_evidence = [], competing_explanations = [], untested_assumptions = [],
      confidence = 0.2,
      confidence_history =
        [\<lparr>event_type = INITIAL_INFERENCE, old_confidence = 0, new_confidence = 0.2,
          reason = ''Initial inference with 1 observations'', agent = ''analyst''\<rparr>],
      status = ACTIVE, revision = 1, created_by = ''analyst'', last_modified_by = ''analyst''\<rparr>"

definition users_store :: HypothesisStore where
  "users_store = create_seq [users_call ''id-1''] Map.empty"

definition duplicate_store :: HypothesisStore where
  "duplicate_store = create_seq [users_call ''id-1'', users_call ''id-2''] Map.empty"

definition reject_review :: CriticEvaluation where
  "reject_review =
     \<lparr>ev_hypothesis_id = ''id-1'', verdict = REJECT,
      alternative_explanations = [''Evidence may be coincidental''],
      ev_untested_assumptions = [], original_confidence = 0.2, recommended_confidence = 0.1,
      adjustment_reason = ''single observation''\<rparr>"

definition challenge_review :: CriticEvaluation where
  "challenge_review =
     \<lparr>ev_hypothesis_id = ''id-1'', verdict = CHALLENGE,
      alternative_explanations = [''Evidence may be coincidental''],
      ev_untested_assumptions = [''Assumes consistent API behavior''],
      original_confidence = 0.2, recommended_confidence = 0.1,
      adjustment_reason = ''single observation''\<rparr>"

section \<open>Dictionaries in insertion order\<close>

text \<open>
  Where the order of a dictionary's items matters it is an association list with
  distinct keys: \<open>d[k] = v\<close> replaces the value of a present key in place and appends a
  new key at the end; \<open>{**d1, **d2}\<close> sets the items of \<open>d2\<close> one after the other.
\<close>

fun dict_set :: "(string \<times> 'v) list \<Rightarrow> string \<Rightarrow> 'v \<Rightarrow> (string \<times> 'v) list" where
  "dict_set [] k v = [(k, v)]"
| "dict_set ((k', v') # d) k v = (if k' = k then (k, v) # d else (k', v') # dict_set d k v)"

fun dict_update :: "(string \<times> 'v) list \<Rightarrow> (string \<times> 'v) list \<Rightarrow> (string \<times> 'v) list" where
  "dict_update d [] = d"
| "dict_update d ((k, v) # rest) = dict_update (dict_set d k v) rest"

section \<open>Schema merger (backend/inference/schema_merger.py)\<close>

text \<open>
  A schema is a dictionary with the keys the merger reads and writes: \<open>type\<close>, \<open>format\<close>,
  \<open>properties\<close>, \<open>required\<close>, \<open>items\<close>, \<open>anyOf\<close> and \<open>nullable\<close>. A key that is absent is
  \<open>None\<close>; the empty dictionary \<open>{}\<close> has every key absent. \<open>properties\<close> keeps its
  insertion order. \<open>deepcopy\<close> is the identity on values.
\<close>

datatype schema = Schema
  (s_type: "string option")
  (s_format: "string option")
  (s_properties: "(string \<times> schema) list option")
  (s_required: "string list option")
  (s_items: "schema option")
  (s_anyOf: "schema list option")
  (s_nullable: "bool option")

definition empty_schema :: schema where
  "empty_schema = Schema None None None None None None None"

text \<open>\<open>merged["nullable"] = True\<close> on a copy of the schema.\<close>

definition set_nullable :: "schema \<Rightarrow> schema" where
  "set_nullable s =
     Schema (s_type s) (s_format s) (s_properties s) (s_required s) (s_items s) (s_anyOf s)
       (Some True)"

text \<open>Truth value of \<open>schema.get("type")\<close>: an absent key and the empty string are false.\<close>

definition truthy :: "string option \<Rightarrow> bool" where
  "truthy v = (case v of None \<Rightarrow> False | Some t \<Rightarrow> t \<noteq> [])"

text \<open>
  The property loop of \<open>_merge_object_schemas\<close>, as the source writes it: starting from a
  copy of \<open>props1\<close>, each key of \<open>props2\<close> that is already present has its value replaced
  in place by the merge of the two values, and each new key is appended.
\<close>

fun merge_props_loop ::
  "('v \<Rightarrow> 'v \<Rightarrow> 'v) \<Rightarrow> (string \<times> 'v) list \<Rightarrow> (string \<times> 'v) list \<Rightarrow> (string \<times> 'v) list" where
  "merge_props_loop f merged_props [] = merged_props"
| "merge_props_loop f merged_props ((key, v) # rest) =
     merge_props_loop f
       (case map_of merged_props key of
          Some cur \<Rightarrow> dict_set merged_props key (f cur v)
        | None \<Rightarrow> dict_set merged_props key v)
       rest"

text \<open>
  Keys of a dictionary are distinct, so the value the loop merges for a key is always the
  one \<open>props1\<close> held. The loop is therefore a map over \<open>props1\<close> followed by the new keys
  of \<open>props2\<close>; the recursive merge is defined on this form, and \<open>merge_props_loop_eq\<close>
  below shows that the two agree on dictionaries.
\<close>

definition merge_props ::
  "('v \<Rightarrow> 'v \<Rightarrow> 'v) \<Rightarrow> (string \<times> 'v) list \<Rightarrow> (string \<times> 'v) list \<Rightarrow> (string \<times> 'v) list" where
  "merge_props f props1 props2 =
     map (\<lambda>(key, v1). case map_of props2 key of None \<Rightarrow> (key, v1) | Some v2 \<Rightarrow> (key, f v1 v2))
       props1
     @ filter (\<lambda>(key, v2). map_of props1 key = None) props2"

lemma merge_props_cong [fundef_cong]:
  assumes "props1 = props1'" "props2 = props2'"
    and "\<And>v1 v2. v1 \<in> snd ` set props1' \<Longrightarrow> v2 \<in> snd ` set props2' \<Longrightarrow> f v1 v2 = g v1 v2"
  shows "merge_props f props1 props2 = merge_props g props1' props2'"
  unfolding merge_props_def using assms
  by (auto split: option.splits dest!: map_of_SomeD intro!: map_cong simp: image_iff) force+

lemma size_props_list:
  "(k, v) \<in> set ps \<Longrightarrow> size v \<le> size_list (size_prod (\<lambda>x. 0) size) ps"
  by (induction ps) auto

lemma size_option_pos: "Suc 0 \<le> size_option f x"
  by (cases x) auto

lemma size_props_elem:
  assumes "s_properties s = Some ps" and "(k, v) \<in> set ps"
  shows "size v + 4 \<le> size s"
proof (cases s)
  case (Schema t f p r i a n)
  have "size v \<le> size_list (size_prod (\<lambda>x. 0) size) ps"
    using assms(2) by (rule size_props_list)
  moreover have "Suc 0 \<le> size_option size i" and "Suc 0 \<le> size_option (size_list size) a"
    by (rule size_option_pos)+
  ultimately show ?thesis using Schema assms(1) by simp
qed

lemma size_items_elem:
  assumes "s_items s = Some x"
  shows "size x + 4 \<le> size s"
proof (cases s)
  case (Schema t f p r i a n)
  have "Suc 0 \<le> size_option (size_list (size_prod (\<lambda>x. 0) size)) p"
    and "Suc 0 \<le> size_option (size_list size) a"
    by (rule size_option_pos)+
  then show ?thesis using Schema assms by simp
qed

lemma size_schema_ge: "4 \<le> size (s::schema)"
proof (cases s)
  case (Schema t f p r i a n)
  have "Suc 0 \<le> size_option (size_list (size_prod (\<lambda>x. 0) size)) p"
    and "Suc 0 \<le> size_option size i"
    and "Suc 0 \<le> size_option (size_list size) a"
    by (rule size_option_pos)+
  then show ?thesis using Schema by simp
qed

lemma size_empty_schema: "size empty_schema = 4"
  by (simp add: empty_schema_def)

text \<open>
  The three mutually recursive merge functions. \<open>sorted(list(req1 & req2))\<close> is the
  sorted duplicate-free list of the keys required on both sides.
\<close>

function merge_schemas :: "schema \<Rightarrow> schema \<Rightarrow> schema"
  and merge_object_schemas :: "schema \<Rightarrow> schema \<Rightarrow> schema"
  and merge_array_schemas :: "schema \<Rightarrow> schema \<Rightarrow> schema" where
  "merge_schemas schema1 schema2 =
     (let type1 = s_type schema1; type2 = s_type schema2
      in if type1 = type2 then
           (if type1 = Some ''object'' then merge_object_schemas schema1 schema2
            else if type1 = Some ''array'' then merge_array_schemas schema1 schema2
            else schema1)
         else if truthy type1 \<and> truthy type2 then
           Schema None None None None None (Some [schema1, schema2]) None
         else if type1 = Some ''null'' then set_nullable schema2
         else if type2 = Some ''null'' then set_nullable schema1
         else if schema1 \<noteq> empty_schema then schema1 else schema2)"
| "merge_object_schemas schema1 schema2 =
     (let props1 = (case s_properties schema1 of None \<Rightarrow> [] | Some p \<Rightarrow> p);
          props2 = (case s_properties schema2 of None \<Rightarrow> [] | Some p \<Rightarrow> p);
          req1 = (case s_required schema1 of None \<Rightarrow> [] | Some r \<Rightarrow> r);
          req2 = (case s_required schema2 of None \<Rightarrow> [] | Some r \<Rightarrow> r);
          merged_props = merge_props merge_schemas props1 props2;
          merged_required = sort (remdups (filter (\<lambda>k. k \<in> set req2) req1))
      in Schema (Some ''object'') None (Some merged_props)
           (if merged_required \<noteq> [] then Some merged_required else None) None None None)"
| "merge_array_schemas schema1 schema2 =
     (let items1 = (case s_items schema1 of None \<Rightarrow> empty_schema | Some i \<Rightarrow> i);
          items2 = (case s_items schema2 of None \<Rightarrow> empty_schema | Some i \<Rightarrow> i)
      in Schema (Some ''array'') None None None (Some (merge_schemas items1 items2)) None None)"
  by pat_completeness auto
termination
proof (relation "measure (\<lambda>x. case x of
      Inl (s1, s2) \<Rightarrow> 2 * ((size s1 - 4) + (size s2 - 4))
        + (if s_type s1 = Some ''object'' \<or> s_type s1 = Some ''array'' then 2 else 0)
    | Inr (Inl (s1, s2)) \<Rightarrow> 2 * ((size s1 - 4) + (size s2 - 4)) + 1
    | Inr (Inr (s1, s2)) \<Rightarrow> 2 * ((size s1 - 4) + (size s2 - 4)) + 1)", goal_cases)
  case 1
  show ?case by simp
next
  case (2 schema1 schema2 type1 type2)
  then show ?case by simp
next
  case (3 schema1 schema2 type1 type2)
  then show ?case by simp
next
  case (4 schema1 schema2 props1 props2 req1 req2 v1 v2)
  from 4 have "size v1 + 4 \<le> size schema1" and "size v2 + 4 \<le> size schema2"
    by (auto split: option.splits dest: size_props_elem)
  moreover have "4 \<le> size v1" and "4 \<le> size v2"
    by (rule size_schema_ge)+
  ultimately show ?case by (simp, intro conjI impI; arith)
next
  case (5 schema1 schema2 items1 items2)
  have a: "size items1 - 4 < size schema1 - 4 \<or> size items1 = 4"
    using 5 size_schema_ge [of items1]
    by (auto split: option.splits dest!: size_items_elem simp: size_empty_schema)
  have b: "size items2 - 4 < size schema2 - 4 \<or> size items2 = 4"
    using 5 size_schema_ge [of items2]
    by (auto split: option.splits dest!: size_items_elem simp: size_empty_schema)
  have c: "size items1 = 4 \<longrightarrow> s_type items1 = None \<or> size items1 + 4 \<le> size schema1"
    using 5 by (auto split: option.splits dest!: size_items_elem simp: empty_schema_def)
  show ?case
    using a b c size_schema_ge [of schema1] size_schema_ge [of schema2]
    by auto
qed

declare merge_schemas.simps [simp del] merge_object_schemas.simps [simp del]
  merge_array_schemas.simps [simp del]

definition null_schema :: schema where
  "null_schema = Schema (Some ''null'') None None None None None None"

definition string_schema :: schema where
  "string_schema = Schema (Some ''string'') None None None None None None"

section \<open>Strings\<close>

text \<open>
  \<open>str.lower()\<close> on the ASCII letters, and the substring test \<open>pat in s\<close>. Characters are
  bytes here, so letters outside ASCII are left as they are.
\<close>

definition lower_char :: "char \<Rightarrow> char" where
  "lower_char c =
     (let n = (of_char c :: nat) in if 65 \<le> n \<and> n \<le> 90 then char_of (n + 32) else c)"

definition lower :: "string \<Rightarrow> string" where
  "lower s = map lower_char s"

fun substring_in :: "string \<Rightarrow> string \<Rightarrow> bool" where
  "substring_in pat [] = (pat = [])"
| "substring_in pat (c # cs) = (prefix pat (c # cs) \<or> substring_in pat cs)"

section \<open>Interceptor (backend/agents/interceptor.py)\<close>

record NetworkObservation =
  obs_id :: string
  obs_method :: string
  obs_url :: string
  obs_status_code :: int
  obs_response_headers :: "string \<rightharpoonup> string"

definition static_patterns :: "string list" where
  "static_patterns =
     [''.js'', ''.css'', ''.png'', ''.jpg'', ''.gif'', ''.svg'',
      ''.woff'', ''.ico'', ''.webp'', ''.mp4'', ''.mp3'']"

definition trackers :: "string list" where
  "trackers =
     [''google-analytics'', ''googletagmanager'', ''facebook'',
      ''hotjar'', ''mixpanel'', ''segment'', ''doubleclick'']"

definition api_patterns :: "string list" where
  "api_patterns = [''/api/'', ''/v1/'', ''/v2/'', ''/graphql'', ''/rest/'', ''/data/'']"

definition is_relevant_api_call :: "NetworkObservation \<Rightarrow> bool" where
  "is_relevant_api_call obs =
     (let url = lower (obs_url obs)
      in if obs_status_code obs = 0 then False
         else if list_ex (\<lambda>pattern. substring_in pattern url) static_patterns then False
         else if list_ex (\<lambda>tracker. substring_in tracker url) trackers then False
         else if list_ex (\<lambda>pattern. substring_in pattern url) api_patterns then True
         else
           (let content_type =
                  lower (case obs_response_headers obs ''content-type'' of
                           None \<Rightarrow> [] | Some v \<Rightarrow> v)
            in if substring_in ''application/json'' content_type then True
               else if substring_in ''application/xml'' content_type then True
               else False))"

text \<open>The observations \<open>execute\<close> passes on: the pending ones that are relevant API calls.\<close>

definition interceptor_execute :: "NetworkObservation list \<Rightarrow> NetworkObservation list" where
  "interceptor_execute pending_observations = filter is_relevant_api_call pending_observations"

definition json_file_observation :: NetworkObservation where
  "json_file_observation =
     \<lparr>obs_id = ''o1'', obs_method = ''GET'', obs_url = ''https://h/catalog/items.json'',
      obs_status_code = 200,
      obs_response_headers = [''content-type'' \<mapsto> ''application/json'']\<rparr>"

definition v3_observation :: NetworkObservation where
  "v3_observation =
     \<lparr>obs_id = ''o2'', obs_method = ''GET'', obs_url = ''https://h/v3/items'',
      obs_status_code = 200,
      obs_response_headers = [''content-type'' \<mapsto> ''text/html'']\<rparr>"

section \<open>The dictionaries the agents exchange\<close>

text \<open>
  Agents pass hypotheses, probes and reviews as dictionaries. Each becomes a record; a
  field of option type is a key that may be absent, read in the source with
  \<open>.get(key, default)\<close>. Keys are taken to hold values of the expected type when present.
\<close>

record hyp_dict =
  hd_id :: "string option"
  hd_type :: "string option"
  hd_endpoint_pattern :: "string option"
  hd_method :: "string option"
  hd_request_schema :: "schema option"
  hd_supporting_evidence :: "string list option"
  hd_confidence :: "real option"

definition empty_hyp_dict :: hyp_dict where
  "empty_hyp_dict =
     \<lparr>hd_id = None, hd_type = None, hd_endpoint_pattern = None, hd_method = None,
      hd_request_schema = None, hd_supporting_evidence = None, hd_confidence = None\<rparr>"

record probe =
  probe_type :: string
  probe_description :: string
  expected_outcome :: string
  probe_hypothesis_id :: "string option"

record review_dict =
  rv_hypothesis_id :: "string option"
  rv_verdict :: string
  rv_alternative_explanations :: "string list"
  rv_untested_assumptions :: "string list"
  rv_missing_evidence :: "string list"
  rv_contradictions :: "string list"
  rv_original_confidence :: "real option"
  rv_recommended_confidence :: real
  rv_adjustment_reason :: string
  rv_required_probes :: "probe list"
  rv_required_exploration :: "string list"

section \<open>Critic (backend/agents/critic.py)\<close>

definition generate_default_probes :: "hyp_dict \<Rightarrow> probe list" where
  "generate_default_probes hypothesis =
     (let hyp_ty = (case hd_type hypothesis of None \<Rightarrow> [] | Some t \<Rightarrow> t)
      in if hyp_ty = ''endpoint_schema'' then
           (let endpoint = (case hd_endpoint_pattern hypothesis of None \<Rightarrow> [] | Some e \<Rightarrow> e);
                meth = (case hd_method hypothesis of None \<Rightarrow> ''GET'' | Some m \<Rightarrow> m)
            in [\<lparr>probe_type = ''replay_exact'',
                 probe_description =
                   ''Replay '' @ meth @ '' '' @ endpoint @ '' to confirm consistency'',
                 expected_outcome = ''Same response structure'',
                 probe_hypothesis_id = None\<rparr>]
               @ (if meth \<in> {''POST'', ''PUT'', ''PATCH''}
                  then [\<lparr>probe_type = ''omit_field'',
                         probe_description = ''Test with missing optional fields'',
                         expected_outcome = ''Success with defaults or validation error'',
                         probe_hypothesis_id = None\<rparr>]
                  else [])
               @ [\<lparr>probe_type = ''auth_variation'',
                   probe_description = ''Test without authentication'',
                   expected_outcome = ''401 if auth required, else same response'',
                   probe_hypothesis_id = None\<rparr>])
         else if hyp_ty \<in> {''business_rule'', ''state_transition''} then
           [\<lparr>probe_type = ''sequence_break'',
             probe_description = ''Test by skipping prerequisite steps'',
             expected_outcome = ''Error if sequence is enforced'',
             probe_hypothesis_id = None\<rparr>]
         else if hyp_ty = ''permission_gate'' then
           [\<lparr>probe_type = ''auth_variation'',
             probe_description = ''Test with different auth levels'',
             expected_outcome = ''Different responses based on permission'',
             probe_hypothesis_id = None\<rparr>]
         else [])"

definition fallback_evaluation :: "hyp_dict \<Rightarrow> review_dict" where
  "fallback_evaluation hypothesis =
     (let evidence_count =
            length (case hd_supporting_evidence hypothesis of None \<Rightarrow> [] | Some e \<Rightarrow> e);
          current_conf = (case hd_confidence hypothesis of None \<Rightarrow> 0.5 | Some c \<Rightarrow> c);
          recommended =
            (if evidence_count \<le> 1 then min current_conf 0.3
             else if evidence_count \<le> 3 then min current_conf 0.5
             else min current_conf 0.7);
          verd =
            (if evidence_count \<le> 1 then ''challenge''
             else if evidence_count \<le> 3 then ''challenge''
             else if current_conf \<ge> 0.6 then ''accept'' else ''challenge'')
      in \<lparr>rv_hypothesis_id = None,
          rv_verdict = verd,
          rv_alternative_explanations =
            [''Evidence may be coincidental'', ''Observed behavior may be context-dependent''],
          rv_untested_assumptions =
            [''Assumes consistent API behavior'', ''Limited observation sample''],
          rv_missing_evidence =
            [''Need more diverse test cases'', ''Need negative test cases''],
          rv_contradictions = [],
          rv_original_confidence = None,
          rv_recommended_confidence = recommended,
          rv_adjustment_reason =
            ''Conservative evaluation: '' @ str_of_nat evidence_count
              @ '' observations supporting'',
          rv_required_probes = generate_default_probes hypothesis,
          rv_required_exploration = []\<rparr>)"

text \<open>
  \<open>_evaluate_hypothesis\<close> on the path taken when there is no language model or its call
  raises: the fallback review, completed with the hypothesis reference, a valid verdict,
  a recommended confidence bounded to \<open>[0, 1]\<close>, and default probes when none are set.
\<close>

definition evaluate_hypothesis_without_llm :: "hyp_dict \<Rightarrow> review_dict" where
  "evaluate_hypothesis_without_llm hypothesis =
     (let evaluation = fallback_evaluation hypothesis;
          evaluation = evaluation
            \<lparr>rv_hypothesis_id :=
               Some (case hd_id hypothesis of None \<Rightarrow> ''unknown'' | Some i \<Rightarrow> i),
             rv_original_confidence :=
               Some (case hd_confidence hypothesis of None \<Rightarrow> 0.5 | Some c \<Rightarrow> c)\<rparr>;
          evaluation =
            (if rv_verdict evaluation \<notin> {''accept'', ''challenge'', ''reject''}
             then evaluation\<lparr>rv_verdict := ''challenge''\<rparr> else evaluation);
          evaluation = evaluation
            \<lparr>rv_recommended_confidence :=
               max 0.0 (min 1.0 (rv_recommended_confidence evaluation))\<rparr>
      in if rv_verdict evaluation \<in> {''challenge'', ''reject''}
            \<and> rv_required_probes evaluation = []
         then evaluation\<lparr>rv_required_probes := generate_default_probes hypothesis\<rparr>
         else evaluation)"

definition single_observation_hypothesis :: hyp_dict where
  "single_observation_hypothesis =
     \<lparr>hd_id = Some ''id-1'', hd_type = Some ''endpoint_schema'',
      hd_endpoint_pattern = Some ''/api/users/{id}'', hd_method = Some ''GET'',
      hd_request_schema = None,
      hd_supporting_evidence = Some [''GET /api/users/42 200''],
      hd_confidence = Some 0.2\<rparr>"

definition confident_hypothesis :: hyp_dict where
  "confident_hypothesis =
     \<lparr>hd_id = Some ''id-2'', hd_type = Some ''endpoint_schema'',
      hd_endpoint_pattern = Some ''/api/orders'', hd_method = Some ''POST'',
      hd_request_schema = None,
      hd_supporting_evidence = Some [''POST /api/orders 201'', ''POST /api/orders 201''],
      hd_confidence = Some 0.9\<rparr>"

section \<open>Verifier (backend/agents/verifier.py)\<close>

text \<open>
  The verifier holds its authentication state: headers and cookies, both dictionaries,
  kept here as association lists in insertion order.
\<close>

record VerifierAgent =
  auth_headers :: "(string \<times> string) list"
  cookies :: "(string \<times> string) list"

text \<open>The values a generated test body holds. Python's \<open>bool\<close> is a subclass of \<open>int\<close>,
  so \<open>isinstance(v, int)\<close> is true of both integers and booleans.\<close>

datatype body_value =
  BStr string | BInt int | BFloat real | BBool bool | BEmptyList | BEmptyDict

record request_dict =
  rq_method :: string
  rq_url :: string
  rq_headers :: "(string \<times> string) list"
  rq_body :: "(string \<times> body_value) list option"

text \<open>What \<open>httpx.AsyncClient.request\<close> is called with.\<close>

record http_call =
  call_method :: string
  call_url :: string
  call_headers :: "(string \<times> string) list"
  call_json :: "(string \<times> body_value) list option"
  call_cookies :: "(string \<times> string) list"

text \<open>The part of the agent state the verifier reads.\<close>

record verifier_state =
  vs_pending_hypotheses :: "hyp_dict list"
  vs_current_url :: string

text \<open>\<open>re.sub(r'\{id\}', '1', endpoint)\<close>.\<close>

fun replace_id :: "string \<Rightarrow> string" where
  "replace_id [] = []"
| "replace_id (c # cs) =
     (if prefix ''{id}'' (c # cs) then CHR ''1'' # replace_id (drop 3 cs)
      else c # replace_id cs)"

text \<open>
  \<open>re.sub(r'\{[^}]+\}', 'test', filled)\<close>: at an opening brace, the longest run of
  characters other than the closing brace must be non-empty and followed by a closing
  brace; the scan resumes after the match.
\<close>

function replace_braces :: "string \<Rightarrow> string" where
  "replace_braces [] = []"
| "replace_braces (c # cs) =
     (if c = CHR ''{''
         \<and> takeWhile (\<lambda>x. x \<noteq> CHR ''}'') cs \<noteq> []
         \<and> dropWhile (\<lambda>x. x \<noteq> CHR ''}'') cs \<noteq> []
      then ''test'' @ replace_braces (tl (dropWhile (\<lambda>x. x \<noteq> CHR ''}'') cs))
      else c # replace_braces cs)"
  by pat_completeness auto
termination
proof (relation "measure length", goal_cases)
  case 1
  show ?case by simp
next
  case (2 c cs)
  have "length (dropWhile (\<lambda>x. x \<noteq> CHR ''}'') cs) \<le> length cs"
    by (rule length_dropWhile_le)
  then show ?case by simp
next
  case (3 c cs)
  then show ?case by simp
qed

definition fill_path_params :: "string \<Rightarrow> string" where
  "fill_path_params endpoint = replace_braces (replace_id endpoint)"

definition test_value :: "string \<Rightarrow> schema \<Rightarrow> body_value option" where
  "test_value field field_schema =
     (let field_type = (case s_type field_schema of None \<Rightarrow> ''string'' | Some t \<Rightarrow> t)
      in if field_type = ''string'' then
           (if substring_in ''email'' (lower field) then Some (BStr ''test@example.com'')
            else if substring_in ''date'' (lower field) then Some (BStr ''2024-01-15'')
            else Some (BStr (''test_'' @ field)))
         else if field_type = ''integer'' then Some (BInt 1)
         else if field_type = ''number'' then Some (BFloat 1.0)
         else if field_type = ''boolean'' then Some (BBool True)
         else if field_type = ''array'' then Some BEmptyList
         else if field_type = ''object'' then Some BEmptyDict
         else None)"

fun generate_fields :: "(string \<times> schema) list \<Rightarrow> (string \<times> body_value) list
    \<Rightarrow> (string \<times> body_value) list" where
  "generate_fields [] body = body"
| "generate_fields ((field, field_schema) # props) body =
     generate_fields props
       (case test_value field field_schema of
          None \<Rightarrow> body
        | Some v \<Rightarrow> dict_set body field v)"

definition generate_test_body :: "schema \<Rightarrow> (string \<times> body_value) list" where
  "generate_test_body sch =
     generate_fields (case s_properties sch of None \<Rightarrow> [] | Some p \<Rightarrow> p) []"

definition boundary_value :: "body_value \<Rightarrow> body_value" where
  "boundary_value v =
     (case v of
        BInt _ \<Rightarrow> BInt 2147483647
      | BBool _ \<Rightarrow> BInt 2147483647
      | BStr _ \<Rightarrow> BStr (replicate 10000 CHR ''x'')
      | _ \<Rightarrow> v)"

definition change_type :: "body_value \<Rightarrow> body_value" where
  "change_type v =
     (case v of
        BInt i \<Rightarrow> BStr (str_of_int i)
      | BBool b \<Rightarrow> BStr (if b then ''True'' else ''False'')
      | BStr _ \<Rightarrow> BInt 12345
      | _ \<Rightarrow> v)"

text \<open>
  \<open>_build_probe_request\<close>. \<open>origin\<close> stands for the standard library's \<open>urlparse\<close>: it
  gives \<open>scheme://netloc\<close> of the current URL. The hypothesis looked up is the first
  pending one whose id equals the probe's hypothesis id; an empty dictionary counts as
  not found.
\<close>

definition build_probe_request ::
  "(string \<Rightarrow> string) \<Rightarrow> VerifierAgent \<Rightarrow> probe \<Rightarrow> verifier_state \<Rightarrow> request_dict option" where
  "build_probe_request origin self prb state =
     (case find (\<lambda>h. hd_id h = probe_hypothesis_id prb) (vs_pending_hypotheses state) of
        None \<Rightarrow> None
      | Some hypothesis \<Rightarrow>
          if hypothesis = empty_hyp_dict then None
          else if vs_current_url state = [] then None
          else
            (let endpoint = (case hd_endpoint_pattern hypothesis of None \<Rightarrow> [] | Some e \<Rightarrow> e);
                 meth = (case hd_method hypothesis of None \<Rightarrow> ''GET'' | Some m \<Rightarrow> m);
                 base_url = origin (vs_current_url state);
                 url = base_url @ fill_path_params endpoint;
                 headers =
                   dict_update
                     [(''Content-Type'', ''application/json''), (''Accept'', ''application/json'')]
                     (auth_headers self);
                 body =
                   (if meth \<in> {''POST'', ''PUT'', ''PATCH''}
                    then Some (generate_test_body
                                 (case hd_request_schema hypothesis of
                                    None \<Rightarrow> empty_schema | Some s \<Rightarrow> s))
                    else None);
                 headers' =
                   (if probe_type prb = ''auth_variation''
                    then filter (\<lambda>(k, v). lower k \<notin> {''authorization'', ''cookie''}) headers
                    else headers);
                 body' =
                   (if probe_type prb = ''auth_variation'' then body
                    else if probe_type prb = ''omit_field'' then
                      (case body of
                         Some (kv # kvs) \<Rightarrow> Some kvs
                       | _ \<Rightarrow> body)
                    else if probe_type prb = ''boundary_value'' then
                      map_option (map (\<lambda>(k, v). (k, boundary_value v))) body
                    else if probe_type prb = ''change_type'' then
                      map_option (map (\<lambda>(k, v). (k, change_type v))) body
                    else body)
             in Some \<lparr>rq_method = meth, rq_url = url, rq_headers = headers',
                      rq_body = body'\<rparr>))"

text \<open>
  The request \<open>_execute_probe\<close> sends: none when no request could be built, otherwise the
  built request, its body dropped when empty, together with the agent's cookies.
\<close>

definition probe_http_call ::
  "(string \<Rightarrow> string) \<Rightarrow> VerifierAgent \<Rightarrow> probe \<Rightarrow> verifier_state \<Rightarrow> http_call option" where
  "probe_http_call origin self prb state =
     (case build_probe_request origin self prb state of
        None \<Rightarrow> None
      | Some request \<Rightarrow>
          Some \<lparr>call_method = rq_method request,
                call_url = rq_url request,
                call_headers = rq_headers request,
                call_json = (case rq_body request of
                               None \<Rightarrow> None
                             | Some b \<Rightarrow> if b \<noteq> [] then Some b else None),
                call_cookies = cookies self\<rparr>)"

definition logged_in_verifier :: VerifierAgent where
  "logged_in_verifier =
     \<lparr>auth_headers = [(''Authorization'', ''Bearer token-1'')],
      cookies = [(''session'', ''abc123'')]\<rparr>"

definition auth_variation_probe :: probe where
  "auth_variation_probe =
     \<lparr>probe_type = ''auth_variation'', probe_description = ''Test without authentication'',
      expected_outcome = ''401 if auth required, else same response'',
      probe_hypothesis_id = Some ''id-1''\<rparr>"

definition probing_state :: verifier_state where
  "probing_state =
     \<lparr>vs_pending_hypotheses = [single_observation_hypothesis],
      vs_current_url = ''https://h/app''\<rparr>"

section \<open>FSM store (backend/memory/fsm_store.py)\<close>

text \<open>
  The tables the store writes, as the database holds them. The schema declares
  \<open>from_state_hash\<close> and \<open>to_state_hash\<close> (and every \<open>session_id\<close>) with a \<open>REFERENCES\<close>
  clause. SQLite checks such a clause only on a connection on which
  \<open>PRAGMA foreign_keys = ON\<close> was issued; the setting of the connection is the field
  \<open>foreign_keys\<close>. The store opens its connection with \<open>aiosqlite.connect\<close> and never
  issues the pragma, so \<open>initialize\<close> leaves the setting as the connection came.
\<close>

record page_state_row =
  ps_session_id :: string
  ps_url :: string
  ps_page_title :: string
  ps_visit_count :: int
  ps_is_dead_end :: bool

record transition_row =
  tr_id :: int
  tr_session_id :: string
  tr_from_state_hash :: string
  tr_to_state_hash :: string
  tr_action_type :: string
  tr_action_target :: string
  tr_triggered_apis :: "string option"
  tr_success :: bool

record fsm_db =
  foreign_keys :: bool
  sessions :: "string set"
  page_states :: "string \<rightharpoonup> page_state_row"
  transitions :: "transition_row list"
  transitions_seq :: int

datatype db_error = IntegrityError

definition connect :: "bool \<Rightarrow> fsm_db" where
  "connect fk =
     \<lparr>foreign_keys = fk, sessions = {}, page_states = Map.empty, transitions = [],
      transitions_seq = 0\<rparr>"

text \<open>\<open>CREATE TABLE IF NOT EXISTS\<close> and \<open>CREATE INDEX IF NOT EXISTS\<close> change no row and no
  setting.\<close>

definition initialize :: "fsm_db \<Rightarrow> fsm_db" where
  "initialize db = db"

definition create_session :: "string \<Rightarrow> fsm_db \<Rightarrow> db_error + fsm_db" where
  "create_session session_id db =
     (if session_id \<in> sessions db then Inl IntegrityError
      else Inr (db\<lparr>sessions := insert session_id (sessions db)\<rparr>))"

text \<open>\<open>add_state\<close>: the insert fails on a known hash (or, with foreign keys enforced, on
  an unknown session); the handler then increments the visit count of the hash.\<close>

definition add_state :: "string \<Rightarrow> string \<Rightarrow> string \<Rightarrow> string \<Rightarrow> fsm_db \<Rightarrow> bool \<times> fsm_db" where
  "add_state state_hash session_id url page_title db =
     (if page_states db state_hash = None
         \<and> (if foreign_keys db then session_id \<in> sessions db else True)
      then (True,
            db\<lparr>page_states := (page_states db)(state_hash \<mapsto>
                 \<lparr>ps_session_id = session_id, ps_url = url, ps_page_title = page_title,
                  ps_visit_count = 1, ps_is_dead_end = False\<rparr>)\<rparr>)
      else (False,
            db\<lparr>page_states :=
                 (case page_states db state_hash of
                    None \<Rightarrow> page_states db
                  | Some row \<Rightarrow> (page_states db)(state_hash \<mapsto>
                      row\<lparr>ps_visit_count := ps_visit_count row + 1\<rparr>))\<rparr>))"

fun join_commas :: "string list \<Rightarrow> string" where
  "join_commas [] = []"
| "join_commas [x] = x"
| "join_commas (x # y # ys) = x @ '','' @ join_commas (y # ys)"

text \<open>\<open>add_transition\<close>: a plain insert, returning the new row id.\<close>

definition add_transition ::
  "string \<Rightarrow> string \<Rightarrow> string \<Rightarrow> string \<Rightarrow> string \<Rightarrow> string list option \<Rightarrow> bool \<Rightarrow> fsm_db
     \<Rightarrow> db_error + (int \<times> fsm_db)" where
  "add_transition session_id from_state_hash to_state_hash action_type action_target
     triggered_apis success db =
     (if foreign_keys db
         \<and> \<not> (session_id \<in> sessions db \<and> page_states db from_state_hash \<noteq> None
               \<and> page_states db to_state_hash \<noteq> None)
      then Inl IntegrityError
      else
        (let rowid = transitions_seq db + 1;
             row = \<lparr>tr_id = rowid, tr_session_id = session_id,
                    tr_from_state_hash = from_state_hash, tr_to_state_hash = to_state_hash,
                    tr_action_type = action_type, tr_action_target = action_target,
                    tr_triggered_apis =
                      (case triggered_apis of
                         None \<Rightarrow> None
                       | Some apis \<Rightarrow> if apis \<noteq> [] then Some (join_commas apis) else None),
                    tr_success = success\<rparr>
         in Inr (rowid, db\<lparr>transitions := transitions db @ [row], transitions_seq := rowid\<rparr>)))"

definition fresh_store :: fsm_db where
  "fresh_store = initialize (connect False)"

section \<open>Supervisor (backend/agents/supervisor.py)\<close>

text \<open>The control fields of the agent state; \<open>messages\<close> and the browser snapshot are
  left out.\<close>

record AgentState =
  loop_phase :: string
  loop_iteration :: int
  new_observations :: "NetworkObservation list"
  pending_hypotheses :: "hyp_dict list"
  critic_reviews :: "review_dict list"
  probe_results :: "string list"
  should_continue :: bool
  termination_reason :: "string option"
  error_count :: int

definition route_by_phase :: "int \<Rightarrow> AgentState \<Rightarrow> string" where
  "route_by_phase max_loop_iterations state =
     (if \<not> should_continue state then ''terminate''
      else if error_count state > 10 then ''terminate''
      else if loop_iteration state \<ge> max_loop_iterations then ''terminate''
      else loop_phase state)"

definition check_termination :: "AgentState \<Rightarrow> string" where
  "check_termination state = (if \<not> should_continue state then ''stop'' else ''continue'')"

definition supervisor_check_termination :: "int \<Rightarrow> AgentState \<Rightarrow> string option" where
  "supervisor_check_termination max_loop_iterations state =
     (let iteration = loop_iteration state;
          errors = error_count state
      in if iteration \<ge> max_loop_iterations then
           Some (''Maximum iterations ('' @ str_of_int max_loop_iterations @ '') reached'')
         else if errors > 10 then
           Some (''Too many errors ('' @ str_of_int errors @ '')'')
         else None)"

definition supervisor_execute :: "int \<Rightarrow> AgentState \<Rightarrow> AgentState" where
  "supervisor_execute max_loop_iterations state =
     (let current_phase = loop_phase state;
          iteration = loop_iteration state;
          advance = (\<lambda>next_phase.
            state\<lparr>loop_phase := next_phase, loop_iteration := iteration + 1\<rparr>)
      in if current_phase = ''explore'' then advance ''observe''
         else if current_phase = ''observe'' then
           (if new_observations state \<noteq> [] then advance ''infer'' else advance ''explore'')
         else if current_phase = ''infer'' then
           (if pending_hypotheses state \<noteq> [] then advance ''critique''
            else advance ''explore'')
         else if current_phase = ''critique'' then
           (if list_ex (\<lambda>r. rv_required_probes r \<noteq> []) (critic_reviews state)
            then advance ''probe'' else advance ''update'')
         else if current_phase = ''probe'' then advance ''update''
         else if current_phase = ''update'' then
           (case supervisor_check_termination max_loop_iterations state of
              Some should_stop \<Rightarrow>
                state\<lparr>should_continue := False, termination_reason := Some should_stop\<rparr>
            | None \<Rightarrow> advance ''explore'')
         else advance ''explore'')"

definition memory_update_node :: "AgentState \<Rightarrow> AgentState" where
  "memory_update_node state =
     state\<lparr>new_observations := [], pending_hypotheses := [], critic_reviews := [],
           probe_results := []\<rparr>"

definition termination_check_node :: "int \<Rightarrow> AgentState \<Rightarrow> AgentState" where
  "termination_check_node max_loop_iterations state =
     (if loop_iteration state \<ge> max_loop_iterations \<or> error_count state > 10
      then state\<lparr>should_continue := False,
                 termination_reason :=
                   Some (if error_count state > 10 then ''Too many errors''
                         else ''Maximum iterations reached'')\<rparr>
      else state\<lparr>should_continue := True\<rparr>)"

text \<open>
  What the graph does once the update node has run: the termination-check node, then,
  unless that stopped the run, the supervisor on the phase \<open>update\<close> and its routing. The
  result is the state and whether the run has ended.
\<close>

definition after_update :: "int \<Rightarrow> AgentState \<Rightarrow> AgentState \<times> bool" where
  "after_update max_loop_iterations state =
     (let s1 = termination_check_node max_loop_iterations (memory_update_node state)
      in if check_termination s1 = ''stop'' then (s1, True)
         else
           (let s2 = supervisor_execute max_loop_iterations s1
            in (s2, route_by_phase max_loop_iterations s2 = ''terminate'')))"

text \<open>
  The termination predicate in the words of the specification: the iteration counter is
  at least the configured maximum, or the error count exceeds 10, or more than 5
  hypotheses are confirmed and the mean confidence exceeds 0.8, or fifteen consecutive
  explore steps produced no new observation.
\<close>

definition spec_termination_predicate :: "int \<Rightarrow> int \<Rightarrow> int \<Rightarrow> nat \<Rightarrow> real \<Rightarrow> nat \<Rightarrow> bool" where
  "spec_termination_predicate max_loop_iterations iteration errors confirmed_count
       mean_confidence explores_without_observation =
     (iteration \<ge> max_loop_iterations \<or> errors > 10
      \<or> (confirmed_count > 5 \<and> mean_confidence > 0.8)
      \<or> explores_without_observation \<ge> 15)"

definition update_done_state :: AgentState where
  "update_done_state =
     \<lparr>loop_phase = ''update'', loop_iteration = 12, new_observations = [],
      pending_hypotheses = [], critic_reviews = [], probe_results = [],
      should_continue = True, termination_reason = None, error_count = 0\<rparr>"

section \<open>Properties of the confidence calculus\<close>

lemma initial_confidence_bounds:
  "0.1 \<le> initial_confidence e c u \<and> initial_confidence e c u \<le> 1"
  by (simp add: initial_confidence_def Let_def)

lemma probe_update_confidence:
  "confidence (probe_update result h) = apply_probe_result (confidence h) (outcome result)"
  by (simp add: probe_update_def Let_def)

text \<open>
  Claim C3, as stated, asks that a falsified probe produce a confidence strictly below
  the old one for every old confidence in \<open>[0, 1]\<close>. At confidence 0 the rule
  \<open>current * 0.5\<close> returns 0 again, so the decrease is not strict there.
\<close>

theorem apply_probe_falsified_zero_counterexample:
  "(0::real) \<in> {0..1} \<and> \<not> apply_probe_result 0 Outcome_FALSIFIED < 0"
  by simp

text \<open>
  Claim C3 (amended). For every confidence \<open>c\<close> in \<open>[0, 1]\<close>, a confirmed probe gives
  \<open>c + 0.2 * (1 - c)\<close>, which is at least \<open>c\<close>; a falsified probe gives \<open>0.5 * c\<close>,
  which is at most \<open>c\<close> and strictly below \<open>c\<close> whenever \<open>c\<close> is positive.
\<close>

theorem apply_probe_result_direction:
  assumes "0 \<le> c" and "c \<le> 1"
  shows "apply_probe_result c Outcome_CONFIRMED = c + 0.2 * (1 - c)
       \<and> c \<le> apply_probe_result c Outcome_CONFIRMED
       \<and> apply_probe_result c Outcome_FALSIFIED = 0.5 * c
       \<and> apply_probe_result c Outcome_FALSIFIED \<le> c
       \<and> (0 < c \<longrightarrow> apply_probe_result c Outcome_FALSIFIED < c)"
  using assms by simp

theorem apply_probe_result_direction_witness:
  "(0::real) \<le> 7/10 \<and> (7/10::real) \<le> 1
   \<and> apply_probe_result (7/10) Outcome_CONFIRMED = 19/25
   \<and> (7/10::real) \<le> apply_probe_result (7/10) Outcome_CONFIRMED
   \<and> apply_probe_result (7/10) Outcome_FALSIFIED = 7/20
   \<and> apply_probe_result (7/10) Outcome_FALSIFIED < 7/10"
  using apply_probe_result_direction [of "7/10"] by simp

section \<open>Properties of create\<close>

lemma create_confidence_out_of_range:
  assumes "kw_confidence kw = Some c" and "c < 0 \<or> 1 < c"
  shows "create new_id ty descr creator ev kw st = Inl ValidationError"
  using assms by (auto simp: create_def Let_def)

text \<open>
  Claim C10, as stated, says that any explicit confidence among the keyword fields of
  \<open>create\<close> becomes the initial confidence of the hypothesis. The hypothesis model bounds
  its confidence to \<open>[0, 1]\<close>, so with an explicit confidence of 1.5 (or of -0.1) building
  the hypothesis raises a validation error: no hypothesis is returned and none is
  stored.
\<close>

theorem create_confidence_out_of_range_counterexample:
  "kw_confidence out_of_range_kwargs = Some (3/2)
   \<and> create ''hyp-1'' ENDPOINT_SCHEMA ''API endpoint discovered: POST /api/orders''
        ''analyst'' [] out_of_range_kwargs Map.empty = Inl ValidationError
   \<and> create ''hyp-1'' ENDPOINT_SCHEMA ''API endpoint discovered: POST /api/orders''
        ''analyst'' [] (out_of_range_kwargs\<lparr>kw_confidence := Some (- 1/10)\<rparr>) Map.empty
      = Inl ValidationError"
  by (simp add: out_of_range_kwargs_def create_def Let_def)

text \<open>
  Claim C10 (amended). When the keyword fields of \<open>create\<close> carry an explicit confidence
  that the hypothesis model accepts, that is, one in \<open>[0, 1]\<close>, the call succeeds, the new
  hypothesis has exactly that confidence, whatever the initial-confidence rule and its
  clamp to \<open>[0.1, 1.0]\<close> would have given, and its single initial confidence event
  records that value as the new confidence.
\<close>

theorem create_confidence_override_verbatim:
  assumes "0 \<le> c" and "c \<le> 1" and "kw_confidence kw = Some c"
  shows "\<exists>h. create new_id ty descr creator ev kw st = Inr (h, st(new_id \<mapsto> h))
            \<and> confidence h = c
            \<and> confidence_history h =
                [\<lparr>event_type = INITIAL_INFERENCE, old_confidence = 0, new_confidence = c,
                  reason = ''Initial inference with ''
                    @ str_of_nat (length (ev @ convert_evidence (kw_supporting_evidence kw)))
                    @ '' observations'',
                  agent = creator\<rparr>]"
  using assms by (simp add: create_def Let_def)

theorem create_confidence_override_verbatim_witness:
  "(0::real) \<le> 0.6 \<and> (0.6::real) \<le> 1 \<and> kw_confidence analyst_kwargs = Some 0.6
   \<and> initial_confidence 0 0 0 = 0.5
   \<and> (\<exists>h. create ''hyp-1'' ENDPOINT_SCHEMA ''API endpoint discovered: POST /api/orders''
               ''analyst'' [] analyst_kwargs Map.empty
             = Inr (h, [''hyp-1'' \<mapsto> h])
          \<and> confidence h = 0.6
          \<and> confidence_history h =
                [\<lparr>event_type = INITIAL_INFERENCE, old_confidence = 0, new_confidence = 0.6,
                  reason = ''Initial inference with 0 observations'',
                  agent = ''analyst''\<rparr>])"
proof -
  have n: "str_of_nat 0 = ''0''" by code_simp
  show ?thesis
    using create_confidence_override_verbatim [of "0.6" analyst_kwargs "''hyp-1''"
        ENDPOINT_SCHEMA "''API endpoint discovered: POST /api/orders''" "''analyst''" "[]"
        Map.empty]
    by (simp add: analyst_kwargs_def initial_confidence_def n)
qed

lemma users_store_eval: "users_store = [''id-1'' \<mapsto> users_hypothesis]"
proof -
  have n: "str_of_nat (Suc 0) = ''1''" by code_simp
  show ?thesis
    by (simp add: users_store_def users_call_def users_kwargs_def create_def Let_def
        initial_confidence_def users_hypothesis_def n)
qed

text \<open>
  Claim C1, as stated, says that \<open>create\<close> rejects a hypothesis whose
  (kind, pattern, method) is already stored, so that two endpoint-schema hypotheses with
  the same (pattern, method) are never both present. Two successive calls with the same
  kind, pattern and http_method leave both hypotheses in the store.
\<close>

theorem create_duplicate_counterexample:
  "map_option hyp_type (duplicate_store ''id-1'') = Some ENDPOINT_SCHEMA
   \<and> map_option hyp_type (duplicate_store ''id-2'') = Some ENDPOINT_SCHEMA
   \<and> map_option endpoint_pattern (duplicate_store ''id-1'') = Some (Some ''/api/users/{id}'')
   \<and> map_option endpoint_pattern (duplicate_store ''id-2'') = Some (Some ''/api/users/{id}'')
   \<and> map_option http_method (duplicate_store ''id-1'') = Some (Some ''GET'')
   \<and> map_option http_method (duplicate_store ''id-2'') = Some (Some ''GET'')"
  by (simp add: duplicate_store_def users_call_def users_kwargs_def create_def Let_def
      initial_confidence_def)

text \<open>
  Claim C1 (amended). \<open>create\<close> makes no duplicate check: when the store already holds a
  hypothesis with the same (kind, pattern, method) under another id, a call whose
  confidence the model accepts still succeeds, stores the new hypothesis under the drawn
  id and keeps the earlier one, so both are present afterwards. Keeping the keys unique
  is left to the caller.
\<close>

theorem create_inserts_despite_existing_key:
  assumes "st k = Some h0" and "hyp_type h0 = ty"
    and "endpoint_pattern h0 = kw_endpoint_pattern kw" and "http_method h0 = kw_method kw"
    and "new_id \<noteq> k"
    and "case kw_confidence kw of None \<Rightarrow> True | Some c \<Rightarrow> 0 \<le> c \<and> c \<le> 1"
  shows "\<exists>h st'. create new_id ty descr creator ev kw st = Inr (h, st')
            \<and> st' k = Some h0 \<and> st' new_id = Some h
            \<and> hyp_type h = hyp_type h0 \<and> endpoint_pattern h = endpoint_pattern h0
            \<and> http_method h = http_method h0"
proof (cases "kw_confidence kw")
  case None
  then show ?thesis
    using assms initial_confidence_bounds
      [of "int (length (ev @ convert_evidence (kw_supporting_evidence kw)))"
          "int (length (kw_competing_explanations kw))"
          "int (length (kw_untested_assumptions kw))"]
    by (simp add: create_def Let_def)
next
  case (Some c)
  then show ?thesis using assms by (simp add: create_def Let_def)
qed

theorem create_inserts_despite_existing_key_witness:
  "users_store ''id-1'' = Some users_hypothesis
   \<and> hyp_type users_hypothesis = ENDPOINT_SCHEMA
   \<and> endpoint_pattern users_hypothesis = kw_endpoint_pattern users_kwargs
   \<and> http_method users_hypothesis = kw_method users_kwargs
   \<and> ''id-2'' \<noteq> ''id-1''
   \<and> (case kw_confidence users_kwargs of None \<Rightarrow> True | Some c \<Rightarrow> 0 \<le> c \<and> c \<le> 1)
   \<and> (\<exists>h st'. create ''id-2'' ENDPOINT_SCHEMA ''second sample'' ''analyst'' [] users_kwargs
                  users_store = Inr (h, st')
          \<and> st' ''id-1'' = Some users_hypothesis \<and> st' ''id-2'' = Some h
          \<and> hyp_type h = ENDPOINT_SCHEMA \<and> endpoint_pattern h = Some ''/api/users/{id}''
          \<and> http_method h = Some ''GET'')"
proof -
  have a: "users_store ''id-1'' = Some users_hypothesis"
    by (simp add: users_store_eval)
  have b: "hyp_type users_hypothesis = ENDPOINT_SCHEMA"
    and c: "endpoint_pattern users_hypothesis = kw_endpoint_pattern users_kwargs"
    and d: "http_method users_hypothesis = kw_method users_kwargs"
    and e: "''id-2'' \<noteq> ''id-1''"
    and f: "case kw_confidence users_kwargs of None \<Rightarrow> True | Some c \<Rightarrow> 0 \<le> c \<and> c \<le> 1"
    by (simp_all add: users_hypothesis_def users_kwargs_def)
  show ?thesis
    using a b c d e f
      create_inserts_despite_existing_key [where st = users_store and k = "''id-1''"
        and ?h0.0 = users_hypothesis and ty = ENDPOINT_SCHEMA and kw = users_kwargs
        and new_id = "''id-2''" and descr = "''second sample''" and creator = "''analyst''"
        and ev = "[]"]
    by (simp add: users_hypothesis_def)
qed

section \<open>Properties of the critic mutator\<close>

text \<open>
  Claim C2, as stated, says that applying the identical review twice gives the same
  confidence as applying it once and appends at most one confidence event. With a reject
  verdict on a hypothesis of confidence 0.2, one application gives 0.06 and two give
  0.018, and the history grows from one event to three.
\<close>

theorem apply_critic_twice_counterexample:
  "map_option confidence (users_store ''id-1'') = Some 0.2
   \<and> map_option confidence (critic_once ''id-1'' reject_review users_store ''id-1'') = Some 0.06
   \<and> map_option confidence (critic_twice ''id-1'' reject_review users_store ''id-1'') = Some 0.018
   \<and> map_option (length \<circ> confidence_history) (users_store ''id-1'') = Some 1
   \<and> map_option (length \<circ> confidence_history)
        (critic_twice ''id-1'' reject_review users_store ''id-1'') = Some 3"
  by (simp add: users_store_def users_call_def users_kwargs_def create_def Let_def
      initial_confidence_def critic_once_def critic_twice_def apply_critic_evaluation_def
      critic_update_def reject_review_def)

text \<open>
  Claim C2 (amended). Applying the critic mutator twice in succession with the identical
  review applies the critic rule twice and appends two confidence events, one per call,
  with the same event kind, reason and agent (nothing is deduplicated). The final
  confidence equals the confidence after one application when the verdict is challenge.
\<close>

theorem apply_critic_evaluation_twice:
  assumes "st i = Some h"
  shows "\<exists>h1 h2. critic_once i ev st i = Some h1 \<and> critic_twice i ev st i = Some h2
            \<and> confidence h1 = apply_critic_review (confidence h) ev
            \<and> confidence h2 = apply_critic_review (apply_critic_review (confidence h) ev) ev
            \<and> confidence_history h2 =
                confidence_history h
                  @ [\<lparr>event_type = CRITIC_CHALLENGE, old_confidence = confidence h,
                      new_confidence = confidence h1, reason = adjustment_reason ev,
                      agent = ''critic''\<rparr>,
                     \<lparr>event_type = CRITIC_CHALLENGE, old_confidence = confidence h1,
                      new_confidence = confidence h2, reason = adjustment_reason ev,
                      agent = ''critic''\<rparr>]
            \<and> (verdict ev = CHALLENGE \<longrightarrow> confidence h2 = confidence h1)"
  using assms
  by (simp add: critic_once_def critic_twice_def apply_critic_evaluation_def critic_update_def
      Let_def)

theorem apply_critic_evaluation_twice_witness:
  "users_store ''id-1'' = Some users_hypothesis
   \<and> verdict challenge_review = CHALLENGE
   \<and> map_option confidence (critic_once ''id-1'' challenge_review users_store ''id-1'') = Some 0.1
   \<and> map_option confidence (critic_twice ''id-1'' challenge_review users_store ''id-1'') = Some 0.1
   \<and> map_option (length \<circ> confidence_history)
        (critic_twice ''id-1'' challenge_review users_store ''id-1'') = Some 3"
proof -
  have a: "users_store ''id-1'' = Some users_hypothesis"
    by (simp add: users_store_eval)
  have v: "verdict challenge_review = CHALLENGE"
    and r: "recommended_confidence challenge_review = 0.1"
    by (simp_all add: challenge_review_def)
  have c: "confidence users_hypothesis = 0.2"
    and l: "length (confidence_history users_hypothesis) = 1"
    by (simp_all add: users_hypothesis_def)
  from a apply_critic_evaluation_twice [where st = users_store and i = "''id-1''"
      and h = users_hypothesis and ev = challenge_review]
  obtain h1 h2 where
    "critic_once ''id-1'' challenge_review users_store ''id-1'' = Some h1"
    "critic_twice ''id-1'' challenge_review users_store ''id-1'' = Some h2"
    "confidence h1 = apply_critic_review (confidence users_hypothesis) challenge_review"
    "confidence h2 = confidence h1"
    "length (confidence_history h2) = length (confidence_history users_hypothesis) + 2"
    using v by auto
  then show ?thesis using a v r c l by simp
qed

section \<open>Properties of the schema merger\<close>

lemma dict_set_new: "map_of d k = None \<Longrightarrow> dict_set d k v = d @ [(k, v)]"
  by (induction d) (auto split: if_splits)

lemma map_of_dict_set: "map_of (dict_set d k v) = (map_of d)(k \<mapsto> v)"
  by (induction d) (auto simp: fun_eq_iff)

lemma keys_dict_set: "fst ` set (dict_set d k v) = insert k (fst ` set d)"
  by (simp add: dom_map_of_conv_image_fst [symmetric] map_of_dict_set)

lemma distinct_dict_set: "distinct (map fst d) \<Longrightarrow> distinct (map fst (dict_set d k v))"
  by (induction d) (auto simp: keys_dict_set)

lemma merge_props_new_key:
  assumes "map_of props1 k = None" and "map_of rest k = None"
  shows "merge_props f (props1 @ [(k, v)]) rest = merge_props f props1 ((k, v) # rest)"
proof -
  have keys1: "\<And>key v1. (key, v1) \<in> set props1 \<Longrightarrow> key \<noteq> k"
    using assms(1) by (force simp: map_of_eq_None_iff)
  have keys2: "\<And>key v2. (key, v2) \<in> set rest \<Longrightarrow> key \<noteq> k"
    using assms(2) by (force simp: map_of_eq_None_iff)
  have m: "map (\<lambda>(key, v1). case map_of rest key of None \<Rightarrow> (key, v1) | Some v2 \<Rightarrow> (key, f v1 v2)) props1
         = map (\<lambda>(key, v1). case map_of ((k, v) # rest) key of None \<Rightarrow> (key, v1) | Some v2 \<Rightarrow> (key, f v1 v2)) props1"
    by (rule map_cong) (auto dest: keys1)
  have fl: "filter (\<lambda>(key, v2). map_of (props1 @ [(k, v)]) key = None) rest
          = filter (\<lambda>(key, v2). map_of props1 key = None) rest"
    by (rule filter_cong) (auto dest: keys2 simp: map_add_def split: option.splits)
  show ?thesis
    using assms m fl by (simp add: merge_props_def)
qed

lemma map_dict_set_old:
  assumes "distinct (map fst props1)" and "map_of props1 k = Some cur"
    and "map_of rest k = None"
  shows "map (\<lambda>(key, v1). case map_of rest key of None \<Rightarrow> (key, v1) | Some v2 \<Rightarrow> (key, f v1 v2))
           (dict_set props1 k (f cur v))
       = map (\<lambda>(key, v1). case map_of ((k, v) # rest) key of None \<Rightarrow> (key, v1) | Some v2 \<Rightarrow> (key, f v1 v2))
           props1"
  using assms
proof (induction props1)
  case Nil
  then show ?case by simp
next
  case (Cons kv d)
  obtain k' v' where kv: "kv = (k', v')" by (cases kv)
  show ?case
  proof (cases "k' = k")
    case True
    have "\<And>key v1. (key, v1) \<in> set d \<Longrightarrow> key \<noteq> k"
      using Cons.prems(1) kv True by (force simp: image_iff)
    then have "map (\<lambda>(key, v1). case map_of rest key of None \<Rightarrow> (key, v1) | Some v2 \<Rightarrow> (key, f v1 v2)) d
         = map (\<lambda>(key, v1). case map_of ((k, v) # rest) key of None \<Rightarrow> (key, v1) | Some v2 \<Rightarrow> (key, f v1 v2)) d"
      by (intro map_cong) auto
    then show ?thesis using Cons.prems kv True by simp
  next
    case False
    then show ?thesis using Cons kv by simp
  qed
qed

lemma merge_props_old_key:
  assumes "distinct (map fst props1)" and "map_of props1 k = Some cur"
    and "map_of rest k = None"
  shows "merge_props f (dict_set props1 k (f cur v)) rest = merge_props f props1 ((k, v) # rest)"
proof -
  have "filter (\<lambda>(key, v2). map_of (dict_set props1 k (f cur v)) key = None) rest
      = filter (\<lambda>(key, v2). map_of props1 key = None) rest"
    using assms(2,3) by (intro filter_cong) (force simp: map_of_dict_set map_of_eq_None_iff)+
  then show ?thesis
    using assms by (simp add: merge_props_def map_dict_set_old)
qed

lemma merge_props_loop_eq:
  assumes "distinct (map fst props1)" and "distinct (map fst props2)"
  shows "merge_props_loop f props1 props2 = merge_props f props1 props2"
  using assms
proof (induction props2 arbitrary: props1)
  case Nil
  then show ?case by (simp add: merge_props_def)
next
  case (Cons kv rest)
  obtain k v where kv: "kv = (k, v)" by (cases kv)
  have k_rest: "map_of rest k = None"
    using Cons.prems(2) kv by (force simp: map_of_eq_None_iff)
  have d_rest: "distinct (map fst rest)" using Cons.prems(2) by simp
  show ?case
  proof (cases "map_of props1 k")
    case None
    have "merge_props_loop f props1 (kv # rest) = merge_props_loop f (props1 @ [(k, v)]) rest"
      using None kv by (simp add: dict_set_new)
    also have "\<dots> = merge_props f (props1 @ [(k, v)]) rest"
      using Cons.IH [of "props1 @ [(k, v)]"] Cons.prems(1) d_rest None
      by (auto simp: map_of_eq_None_iff)
    also have "\<dots> = merge_props f props1 (kv # rest)"
      using None k_rest kv by (simp add: merge_props_new_key)
    finally show ?thesis .
  next
    case (Some cur)
    have "merge_props_loop f props1 (kv # rest)
        = merge_props_loop f (dict_set props1 k (f cur v)) rest"
      using Some kv by simp
    also have "\<dots> = merge_props f (dict_set props1 k (f cur v)) rest"
      using Cons.IH [of "dict_set props1 k (f cur v)"] Cons.prems(1) d_rest
      by (simp add: distinct_dict_set)
    also have "\<dots> = merge_props f props1 (kv # rest)"
      using Some k_rest kv Cons.prems(1) by (simp add: merge_props_old_key)
    finally show ?thesis .
  qed
qed

lemma merge_null_with_typed:
  assumes "s_type s1 = Some ''null''" and "s_type s2 = Some t" and "t \<noteq> ''null''"
    and "t \<noteq> []"
  shows "merge_schemas s1 s2 = Schema None None None None None (Some [s1, s2]) None"
    and "merge_schemas s2 s1 = Schema None None None None None (Some [s2, s1]) None"
  using assms by (auto simp: merge_schemas.simps truthy_def Let_def)

lemma merge_null_keeps_other:
  assumes "s_type s1 = Some ''null''" and "s_type s2 \<noteq> Some ''null''"
  shows "merge_schemas s1 s2 = Schema None None None None None (Some [s1, s2]) None
       \<or> merge_schemas s1 s2 = set_nullable s2"
  using assms by (auto simp: merge_schemas.simps truthy_def Let_def split: option.splits)

text \<open>
  Claim C6 says that merging a schema of type null with a schema of another type gives the
  other schema marked nullable. The source tests \<open>if type1 and type2\<close> before it tests for
  null, and \<open>"null"\<close> is a non-empty string, so the pair ends in the \<open>anyOf\<close> branch: merging
  \<open>{"type": "null"}\<close> with \<open>{"type": "string"}\<close>, in either order, gives an \<open>anyOf\<close> of the
  two, not \<open>{"type": "string", "nullable": True}\<close>. The string type is still present in
  the result, as one branch of the \<open>anyOf\<close>.
\<close>

theorem merge_null_string_gives_anyOf:
  "merge_schemas null_schema string_schema
     = Schema None None None None None (Some [null_schema, string_schema]) None
   \<and> merge_schemas null_schema string_schema \<noteq> set_nullable string_schema
   \<and> merge_schemas string_schema null_schema
     = Schema None None None None None (Some [string_schema, null_schema]) None
   \<and> merge_schemas string_schema null_schema \<noteq> set_nullable string_schema"
  by (simp add: merge_schemas.simps null_schema_def string_schema_def truthy_def
      set_nullable_def)

section \<open>Properties of the interceptor\<close>

lemma substring_in_append:
  "substring_in (p @ q) s \<Longrightarrow> substring_in p s"
  by (induction s) (auto simp: prefix_def)

lemma list_ex_static_json:
  assumes "substring_in ''.json'' url"
  shows "list_ex (\<lambda>pattern. substring_in pattern url) static_patterns"
proof -
  have "substring_in (''.js'' @ ''on'') url" using assms by simp
  then have "substring_in ''.js'' url" by (rule substring_in_append)
  then show ?thesis by (simp add: static_patterns_def)
qed

lemma json_url_rejected:
  assumes "substring_in ''.json'' (lower (obs_url obs))"
  shows "\<not> is_relevant_api_call obs"
  using list_ex_static_json [OF assms] by (simp add: is_relevant_api_call_def Let_def)

text \<open>
  Claim C5 says that a pair with a response, outside the tracker list, whose path ends in
  \<open>.json\<close> is kept as API traffic, and likewise a pair whose path contains \<open>/v3/\<close>. The
  static-asset pattern \<open>.js\<close> is tested by substring, and every \<open>.json\<close> URL contains it:
  a 200 response for \<open>https://h/catalog/items.json\<close> with content type
  \<open>application/json\<close> is rejected and dropped from the observations. \<open>/v3/\<close> is not among
  the API patterns of this function: a 200 HTML response for \<open>https://h/v3/items\<close> is
  rejected as well.
\<close>

theorem json_url_not_relevant:
  "obs_status_code json_file_observation \<noteq> 0
   \<and> \<not> list_ex (\<lambda>tracker. substring_in tracker (lower (obs_url json_file_observation))) trackers
   \<and> \<not> is_relevant_api_call json_file_observation
   \<and> interceptor_execute [json_file_observation] = []
   \<and> \<not> is_relevant_api_call v3_observation"
  by code_simp

section \<open>Properties of the critic's fallback review\<close>

text \<open>
  Claim C9, as stated, says that the fallback review sets the recommended confidence
  from the evidence count alone, 0.3 for at most one supporting observation. For a
  hypothesis with one observation and confidence 0.2 the fallback recommends 0.2.
\<close>

theorem fallback_evaluation_counterexample:
  "hd_supporting_evidence single_observation_hypothesis = Some [''GET /api/users/42 200'']
   \<and> rv_recommended_confidence (fallback_evaluation single_observation_hypothesis) = 0.2
   \<and> rv_recommended_confidence (evaluate_hypothesis_without_llm single_observation_hypothesis)
       = 0.2"
  by (simp add: fallback_evaluation_def evaluate_hypothesis_without_llm_def
      single_observation_hypothesis_def Let_def)

text \<open>
  Claim C9 (amended). The fallback review recommends the smaller of the hypothesis's
  current confidence (0.5 when it has none) and a cap set by the evidence count: 0.3 for
  at most one supporting observation, 0.5 for at most three, 0.7 for more. It therefore
  recommends the cap itself whenever the current confidence is at least the cap. It
  attaches exactly two alternative explanations, the same two for every hypothesis.
\<close>

theorem fallback_evaluation_recommended:
  fixes hypothesis :: hyp_dict
  defines "n \<equiv> length (case hd_supporting_evidence hypothesis of None \<Rightarrow> [] | Some e \<Rightarrow> e)"
    and "current \<equiv> (case hd_confidence hypothesis of None \<Rightarrow> 0.5 | Some c \<Rightarrow> c)"
  defines "cap \<equiv> (if n \<le> 1 then 0.3 else if n \<le> 3 then 0.5 else (0.7::real))"
  shows "rv_recommended_confidence (fallback_evaluation hypothesis) = min current cap
       \<and> (cap \<le> current \<longrightarrow> rv_recommended_confidence (fallback_evaluation hypothesis) = cap)
       \<and> rv_alternative_explanations (fallback_evaluation hypothesis)
           = [''Evidence may be coincidental'', ''Observed behavior may be context-dependent'']
       \<and> length (rv_alternative_explanations (fallback_evaluation hypothesis)) = 2"
  by (simp add: fallback_evaluation_def Let_def n_def current_def cap_def)

theorem fallback_evaluation_recommended_witness:
  "length (case hd_supporting_evidence confident_hypothesis of None \<Rightarrow> [] | Some e \<Rightarrow> e) = 2
   \<and> (case hd_confidence confident_hypothesis of None \<Rightarrow> 0.5 | Some c \<Rightarrow> c) = (0.9::real)
   \<and> rv_recommended_confidence (fallback_evaluation confident_hypothesis) = 0.5
   \<and> length (rv_alternative_explanations (fallback_evaluation confident_hypothesis)) = 2"
  using fallback_evaluation_recommended [of confident_hypothesis]
  by (simp add: confident_hypothesis_def)

section \<open>Properties of the verifier\<close>

lemma probe_http_call_cookies:
  "probe_http_call origin self prb state = Some c \<Longrightarrow> call_cookies c = cookies self"
  by (auto simp: probe_http_call_def split: option.splits)

lemma auth_variation_strips_headers:
  assumes "probe_type prb = ''auth_variation''"
    and "probe_http_call origin self prb state = Some c"
    and "(k, v) \<in> set (call_headers c)"
  shows "lower k \<noteq> ''authorization'' \<and> lower k \<noteq> ''cookie''"
  using assms
  by (auto simp: probe_http_call_def build_probe_request_def Let_def
      split: option.splits if_splits)

lemma lower_Authorization: "lower ''Authorization'' = ''authorization''"
  by code_simp

lemma lower_plain_headers:
  "lower ''Content-Type'' = ''content-type''" "lower ''Accept'' = ''accept''"
  by code_simp+

lemma fill_users_path: "fill_path_params ''/api/users/{id}'' = ''/api/users/1''"
  by code_simp

text \<open>
  Claim C7 says that the request executed for an \<open>auth_variation\<close> probe carries no
  Authorization header and no cookies. The header filter removes \<open>Authorization\<close> (and a
  \<open>Cookie\<close> header), but \<open>_execute_probe\<close> passes \<open>cookies=self.cookies\<close> to the HTTP client
  for every probe kind: with a session cookie stored in the verifier, the
  \<open>auth_variation\<close> request is sent with that cookie.
\<close>

theorem auth_variation_sends_cookies:
  "map_option call_cookies
     (probe_http_call origin logged_in_verifier auth_variation_probe probing_state)
     = Some [(''session'', ''abc123'')]
   \<and> map_option call_headers
     (probe_http_call origin logged_in_verifier auth_variation_probe probing_state)
     = Some [(''Content-Type'', ''application/json''), (''Accept'', ''application/json'')]
   \<and> map_option call_url
     (probe_http_call origin logged_in_verifier auth_variation_probe probing_state)
     = Some (origin ''https://h/app'' @ ''/api/users/1'')"
  by (simp add: probe_http_call_def build_probe_request_def logged_in_verifier_def
      auth_variation_probe_def probing_state_def single_observation_hypothesis_def
      empty_hyp_dict_def Let_def lower_Authorization lower_plain_headers fill_users_path)

section \<open>Properties of the FSM store\<close>

lemma add_transition_without_enforcement:
  assumes "\<not> foreign_keys db"
  shows "\<exists>rowid db'. add_transition session_id from_hash to_hash action_type action_target
             apis success db = Inr (rowid, db')
         \<and> length (transitions db') = length (transitions db) + 1
         \<and> tr_from_state_hash (last (transitions db')) = from_hash
         \<and> tr_to_state_hash (last (transitions db')) = to_hash
         \<and> page_states db' = page_states db"
  using assms by (simp add: add_transition_def Let_def)

lemma add_transition_with_enforcement:
  assumes "foreign_keys db"
    and "page_states db from_hash = None \<or> page_states db to_hash = None"
  shows "add_transition session_id from_hash to_hash action_type action_target apis success db
           = Inl IntegrityError"
  using assms by (auto simp: add_transition_def)

text \<open>
  Claim C8 says that a transition is written only when both its state hashes are already
  in the page-state table. \<open>add_transition\<close> makes no check of its own, and the
  \<open>REFERENCES\<close> clauses of the schema are not enforced on the store's connection, which
  never enables foreign keys: on a freshly initialised store with no page state at all,
  a transition from hash \<open>aaaa\<close> to hash \<open>bbbb\<close> is stored and its row id returned.
\<close>

theorem add_transition_unknown_states_stored:
  "page_states fresh_store ''aaaa'' = None \<and> page_states fresh_store ''bbbb'' = None
   \<and> add_transition ''s1'' ''aaaa'' ''bbbb'' ''click'' ''7'' None True fresh_store
     = Inr (1, fresh_store
          \<lparr>transitions :=
             [\<lparr>tr_id = 1, tr_session_id = ''s1'', tr_from_state_hash = ''aaaa'',
               tr_to_state_hash = ''bbbb'', tr_action_type = ''click'',
               tr_action_target = ''7'', tr_triggered_apis = None, tr_success = True\<rparr>],
           transitions_seq := 1\<rparr>)"
  by (simp add: add_transition_def fresh_store_def initialize_def connect_def Let_def)

section \<open>Properties of the supervisor\<close>

lemma supervisor_check_termination_iff:
  "supervisor_check_termination m state \<noteq> None
     \<longleftrightarrow> loop_iteration state \<ge> m \<or> error_count state > 10"
  by (simp add: supervisor_check_termination_def Let_def)

text \<open>The run ends after the update phase exactly when the error count exceeds 10 or
  the iteration counter, as the supervisor has just incremented it, reaches the maximum.\<close>

lemma after_update_terminates_iff:
  "snd (after_update m state)
     \<longleftrightarrow> loop_iteration state + 1 \<ge> m \<or> error_count state > 10"
  by (auto simp: after_update_def termination_check_node_def memory_update_node_def
      check_termination_def supervisor_execute_def supervisor_check_termination_def
      route_by_phase_def Let_def)

text \<open>
  Claim C4 says that after the update phase the supervisor terminates exactly when the
  iteration budget is reached, or more than 10 errors occurred, or more than 5 hypotheses
  are confirmed with a mean confidence above 0.8, or fifteen consecutive explore steps
  brought no new observation. The supervisor's check reads only the iteration counter and
  the error count (its comment leaves the hypothesis check to a later implementation).
  At iteration 12 of 1000 with no error, the run goes on to \<open>explore\<close> although 6
  hypotheses are confirmed with mean confidence 0.9, and although 15 explore steps
  brought nothing.
\<close>

theorem supervisor_ignores_confident_store:
  "spec_termination_predicate 1000 (loop_iteration update_done_state)
      (error_count update_done_state) 6 0.9 0
   \<and> spec_termination_predicate 1000 (loop_iteration update_done_state)
      (error_count update_done_state) 0 0 15
   \<and> supervisor_check_termination 1000 update_done_state = None
   \<and> snd (after_update 1000 update_done_state) = False
   \<and> loop_phase (fst (after_update 1000 update_done_state)) = ''explore''
   \<and> should_continue (fst (after_update 1000 update_done_state)) = True"
  by (simp add: spec_termination_predicate_def update_done_state_def
      supervisor_check_termination_def after_update_def termination_check_node_def
      memory_update_node_def check_termination_def supervisor_execute_def
      route_by_phase_def Let_def)

end
